theory Spec2Isabelle
  imports Complex_Main
begin

section \<open>Data model\<close>

text \<open>
  The entities the service layer (services.py) and the task layer (tasks.py) work on.
  Only the attributes those two files read or write are kept. Timestamps are natural
  numbers (a clock reading); every string column is a \<open>string\<close>, a nullable one a
  \<open>string option\<close>.
\<close>

record user =
  full_name :: string
  email :: string
  role :: string
  user_status :: string

record report =
  report_id :: string
  report_type :: string
  status :: string
  document_title :: "string option"
  document_reference :: "string option"
  project_reference :: "string option"
  client_name :: "string option"
  revision :: string
  prepared_by :: "string option"
  report_user_email :: string
  version :: string
  updated_at :: nat
  approvals_json :: "string option"
  approval_notification_sent :: bool

record sat_report =
  sat_report_id :: string
  data_json :: string
  date :: "string option"
  purpose :: "string option"
  scope :: "string option"

record notification =
  notification_id :: nat
  user_email :: string
  title :: string
  message :: string
  notification_type :: string
  read :: bool
  read_at :: "nat option"

text \<open>
  The values \<open>json.loads\<close> returns. A Python float is a rational number or one of the
  non-finite values; a dict is an association list in insertion order.
\<close>

datatype json =
  JNull
| JBool bool
| JInt int
| JFloat rat
| JNonFinite
| JString string
| JArray "json list"
| JObject "(string \<times> json) list"

text \<open>The exceptions the modelled paths raise or catch.\<close>

datatype error = NotFound | CommitError | CreateError | EmailError

subsection \<open>The persistence session\<close>

text \<open>
  \<open>db.session\<close> is a unit of work over the database: \<open>committed\<close> is what the
  database holds, \<open>session\<close> is the view of the running transaction (the committed rows
  with the pending changes applied). \<open>commit\<close> makes the view durable, \<open>rollback\<close>
  discards the pending changes. \<open>commits\<close> counts the commits attempted so far and
  \<open>outbox\<close> collects the e-mails handed to \<open>send_email_notification\<close>.
\<close>

record store =
  users :: "user list"
  reports :: "report list"
  sat_reports :: "sat_report list"
  notifications :: "notification list"

record world =
  committed :: store
  session :: store
  commits :: nat
  outbox :: "(string \<times> string \<times> string) list"

text \<open>
  What the code takes from outside the two files: the clock, the uuid generator, the
  json library, the feature flag of the application configuration, and which external
  calls raise: the \<open>n\<close>-th commit, the construction of a Notification for a recipient,
  the sending of an e-mail to a recipient. Reads of the database (\<open>query.get\<close>,
  \<open>filter_by\<close>, \<open>all\<close>, \<open>first\<close>) and the progress reports of the task runner are
  taken not to raise.
\<close>

record env =
  now :: nat
  new_uuid :: string
  json_dumps :: "json \<Rightarrow> string"
  json_loads :: "string \<Rightarrow> json option"
  enable_email_notifications :: bool
  commit_fails :: "nat \<Rightarrow> bool"
  ctor_fails :: "string \<Rightarrow> bool"
  email_fails :: "string \<Rightarrow> bool"

definition commit :: "env \<Rightarrow> world \<Rightarrow> (error + unit) \<times> world" where
  "commit e w =
     (if commit_fails e (commits w)
      then (Inl CommitError, w\<lparr>commits := Suc (commits w)\<rparr>)
      else (Inr (), w\<lparr>committed := session w, commits := Suc (commits w)\<rparr>))"

definition rollback :: "world \<Rightarrow> world" where
  "rollback w = w\<lparr>session := committed w\<rparr>"

definition get_report :: "store \<Rightarrow> string \<Rightarrow> report option" where
  "get_report s rid = find (\<lambda>r. report_id r = rid) (reports s)"

text \<open>
  Writing a loaded Report object back to its row: the row with the object's primary key
  takes the object's attributes.
\<close>

definition put_report :: "report \<Rightarrow> world \<Rightarrow> world" where
  "put_report r w =
     w\<lparr>session := (session w)\<lparr>reports :=
         map (\<lambda>x. if report_id x = report_id r then r else x) (reports (session w))\<rparr>\<rparr>"

text \<open>The database assigns a new Notification the next free id.\<close>

definition next_notification_id :: "notification list \<Rightarrow> nat" where
  "next_notification_id ns = Suc (fold max (map notification_id ns) 0)"

definition add_notification :: "notification \<Rightarrow> world \<Rightarrow> world" where
  "add_notification n w =
     w\<lparr>session := (session w)\<lparr>notifications := notifications (session w) @ [n]\<rparr>\<rparr>"

section \<open>UserService\<close>

record users_by_role =
  Admin :: "(string \<times> string) list"
  Engineer :: "(string \<times> string) list"
  TM :: "(string \<times> string) list"
  PM :: "(string \<times> string) list"

text \<open>The body of the loop of \<open>get_users_by_role\<close>: the if/elif chain on the stored role.\<close>

definition add_user_by_role :: "users_by_role \<Rightarrow> user \<Rightarrow> users_by_role" where
  "add_user_by_role acc u =
     (let user_data = (full_name u, email u) in
      if role u = ''Admin'' then acc\<lparr>Admin := Admin acc @ [user_data]\<rparr>
      else if role u = ''Engineer'' then acc\<lparr>Engineer := Engineer acc @ [user_data]\<rparr>
      else if role u \<in> set [''TM'', ''Technical Manager'', ''Tech Manager'', ''Automation Manager'']
        then acc\<lparr>TM := TM acc @ [user_data]\<rparr>
      else if role u \<in> set [''PM'', ''Project Manager'', ''Project_Manager'']
        then acc\<lparr>PM := PM acc @ [user_data]\<rparr>
      else acc)"

definition get_users_by_role :: "world \<Rightarrow> users_by_role" where
  "get_users_by_role w =
     foldl add_user_by_role \<lparr>Admin = [], Engineer = [], TM = [], PM = []\<rparr>
       (filter (\<lambda>u. user_status u = ''Active'') (users (session w)))"

section \<open>NotificationService\<close>

definition create_notification ::
  "env \<Rightarrow> string \<Rightarrow> string \<Rightarrow> string \<Rightarrow> string \<Rightarrow> world \<Rightarrow> (error + notification) \<times> world" where
  "create_notification e addr ttl msg ntype w =
     (if ctor_fails e addr then (Inl CreateError, rollback w)
      else
        let n = \<lparr>notification_id = next_notification_id (notifications (session w)),
                 user_email = addr, title = ttl, message = msg,
                 notification_type = ntype, read = False, read_at = None\<rparr>
        in case commit e (add_notification n w) of
             (Inl err, w') \<Rightarrow> (Inl err, rollback w')
           | (Inr _, w') \<Rightarrow> (Inr n, w'))"

text \<open>How an f-string renders the optional title: \<open>None\<close> prints as the word None.\<close>

definition py_str :: "string option \<Rightarrow> string" where
  "py_str t = (case t of None \<Rightarrow> ''None'' | Some s \<Rightarrow> s)"

definition approval_message :: "report \<Rightarrow> string" where
  "approval_message r =
     ''Report '' @ [CHR 0x22] @ py_str (document_title r) @ [CHR 0x22] @ '' requires your approval''"

definition approval_email_body :: "report \<Rightarrow> string" where
  "approval_email_body r =
     ''A new report '' @ [CHR 0x22] @ py_str (document_title r) @ [CHR 0x22]
       @ '' is pending your approval.''"

text \<open>The first loop of \<open>create_approval_notification\<close>; an exception leaves the loop.\<close>

fun notify_tms :: "env \<Rightarrow> report \<Rightarrow> user list \<Rightarrow> world \<Rightarrow> (error + unit) \<times> world" where
  "notify_tms e r [] w = (Inr (), w)"
| "notify_tms e r (tm # tms) w =
     (case create_notification e (email tm) ''New Report for Approval''
             (approval_message r) ''approval'' w of
        (Inl err, w') \<Rightarrow> (Inl err, w')
      | (Inr _, w') \<Rightarrow> notify_tms e r tms w')"

definition send_email_notification ::
  "env \<Rightarrow> string \<Rightarrow> string \<Rightarrow> string \<Rightarrow> world \<Rightarrow> (error + unit) \<times> world" where
  "send_email_notification e addr subject body w =
     (if email_fails e addr then (Inl EmailError, w)
      else (Inr (), w\<lparr>outbox := outbox w @ [(addr, subject, body)]\<rparr>))"

text \<open>The second loop, run when the feature flag is set.\<close>

fun email_tms :: "env \<Rightarrow> report \<Rightarrow> user list \<Rightarrow> world \<Rightarrow> (error + unit) \<times> world" where
  "email_tms e r [] w = (Inr (), w)"
| "email_tms e r (tm # tms) w =
     (case send_email_notification e (email tm) ''New Report Pending Approval''
             (approval_email_body r) w of
        (Inl err, w') \<Rightarrow> (Inl err, w')
      | (Inr _, w') \<Rightarrow> email_tms e r tms w')"

definition create_approval_notification :: "env \<Rightarrow> report \<Rightarrow> world \<Rightarrow> bool \<times> world" where
  "create_approval_notification e r w =
     (let tms = filter (\<lambda>u. role u \<in> set [''TM'', ''Technical Manager'']
                              \<and> user_status u = ''Active'') (users (session w))
      in case notify_tms e r tms w of
           (Inl _, w') \<Rightarrow> (False, w')
         | (Inr _, w') \<Rightarrow>
             if enable_email_notifications e
             then (case email_tms e r tms w' of
                     (Inl _, w'') \<Rightarrow> (False, w'')
                   | (Inr _, w'') \<Rightarrow> (True, w''))
             else (True, w'))"

text \<open>\<open>filter_by(...).first()\<close> and the write to the row it returned.\<close>

fun update_first :: "('a \<Rightarrow> bool) \<Rightarrow> ('a \<Rightarrow> 'a) \<Rightarrow> 'a list \<Rightarrow> 'a list" where
  "update_first P f [] = []"
| "update_first P f (x # xs) = (if P x then f x # xs else x # update_first P f xs)"

definition mark_as_read :: "env \<Rightarrow> nat \<Rightarrow> string \<Rightarrow> world \<Rightarrow> bool \<times> world" where
  "mark_as_read e nid addr w =
     (let mine = (\<lambda>n. notification_id n = nid \<and> user_email n = addr) in
      case find mine (notifications (session w)) of
        Some n \<Rightarrow>
          (case commit e (w\<lparr>session := (session w)\<lparr>notifications :=
                   update_first mine (\<lambda>n. n\<lparr>read := True, read_at := Some (now e)\<rparr>)
                     (notifications (session w))\<rparr>\<rparr>) of
             (Inl _, w') \<Rightarrow> (False, rollback w')
           | (Inr _, w') \<Rightarrow> (True, w'))
      | None \<Rightarrow> (False, w))"

section \<open>ReportService\<close>

text \<open>
  \<open>data\<close> is the submitted field set, a dict of strings; \<open>data.get(k)\<close> is \<open>map_of data k\<close>.
\<close>

definition get_default :: "(string \<times> string) list \<Rightarrow> string \<Rightarrow> string \<Rightarrow> string" where
  "get_default data k d = (case map_of data k of None \<Rightarrow> d | Some v \<Rightarrow> v)"

text \<open>
  Modelled from the spec: the declaration of the Report entity (models.py is not among
  the sources). A report is "created in DRAFT by its owner", so the columns the
  constructor call leaves out are those of a fresh row: no approval state yet, the
  notification flag unset, the last update at creation.
\<close>

definition new_report :: "env \<Rightarrow> (string \<times> string) list \<Rightarrow> string \<Rightarrow> report" where
  "new_report e data owner =
     \<lparr>report_id = new_uuid e,
      report_type = get_default data ''type'' ''SAT'',
      status = ''DRAFT'',
      document_title = map_of data ''document_title'',
      document_reference = map_of data ''document_reference'',
      project_reference = map_of data ''project_reference'',
      client_name = map_of data ''client_name'',
      revision = get_default data ''revision'' ''R0'',
      prepared_by = map_of data ''prepared_by'',
      report_user_email = owner,
      version = ''R0'',
      updated_at = now e,
      approvals_json = None,
      approval_notification_sent = False\<rparr>"

definition create_report ::
  "env \<Rightarrow> (string \<times> string) list \<Rightarrow> string \<Rightarrow> world \<Rightarrow> (error + report) \<times> world" where
  "create_report e data owner w =
     (let r = new_report e data owner;
          w1 = (if report_type r = ''SAT''
                then w\<lparr>session := (session w)\<lparr>sat_reports := sat_reports (session w) @
                       [\<lparr>sat_report_id = report_id r,
                         data_json = json_dumps e (JObject (map (\<lambda>(k, v). (k, JString v)) data)),
                         date = map_of data ''date'',
                         purpose = map_of data ''purpose'',
                         scope = map_of data ''scope''\<rparr>]\<rparr>\<rparr>
                else w);
          w2 = w1\<lparr>session := (session w1)\<lparr>reports := reports (session w1) @ [r]\<rparr>\<rparr>
      in case commit e w2 of
           (Inl err, w') \<Rightarrow> (Inl err, rollback w')
         | (Inr _, w') \<Rightarrow> (Inr r, w'))"

text \<open>The approval workflow a report gets when it is submitted.\<close>

definition approvals :: json where
  "approvals =
     JObject [(''stage'', JInt 1),
              (''approvers'', JArray [
                 JObject [(''stage'', JInt 1), (''title'', JString ''Technical Manager''),
                          (''status'', JString ''pending'')],
                 JObject [(''stage'', JInt 2), (''title'', JString ''Project Manager''),
                          (''status'', JString ''pending'')]])]"

text \<open>
  The attribute writes of \<open>update_report_status\<close> before its first commit: the new
  status, the time stamp and, from DRAFT to PENDING, the serialized workflow.
\<close>

definition transition :: "env \<Rightarrow> string \<Rightarrow> report \<Rightarrow> report" where
  "transition e st r =
     (let old_status = status r;
          r1 = r\<lparr>status := st, updated_at := now e\<rparr>
      in if st = ''PENDING'' \<and> old_status = ''DRAFT''
         then r1\<lparr>approvals_json := Some (json_dumps e approvals)\<rparr>
         else r1)"

definition update_report_status ::
  "env \<Rightarrow> string \<Rightarrow> string \<Rightarrow> world \<Rightarrow> (error + bool) \<times> world" where
  "update_report_status e rid st w =
     (case get_report (session w) rid of
        None \<Rightarrow> (Inl NotFound, rollback w)
      | Some r0 \<Rightarrow>
          let r = transition e st r0 in
          (case commit e (put_report r w) of
             (Inl err, w1) \<Rightarrow> (Inl err, rollback w1)
           | (Inr _, w1) \<Rightarrow>
               if st = ''PENDING'' \<and> \<not> approval_notification_sent r
               then (case create_approval_notification e r w1 of
                       (_, w2) \<Rightarrow>
                         (case commit e (put_report (r\<lparr>approval_notification_sent := True\<rparr>) w2) of
                            (Inl err, w3) \<Rightarrow> (Inl err, rollback w3)
                          | (Inr _, w3) \<Rightarrow> (Inr True, w3)))
               else (Inr True, w1)))"

text \<open>
  \<open>approvals.get('stage') == stage\<close>: Python compares numbers by value, a bool counts
  as 0 or 1, and a missing key gives \<open>None\<close>, which equals no number.
\<close>

fun py_eq_int :: "json option \<Rightarrow> int \<Rightarrow> bool" where
  "py_eq_int (Some (JInt n)) k = (n = k)"
| "py_eq_int (Some (JBool b)) k = ((if b then 1 else 0) = k)"
| "py_eq_int (Some (JFloat q)) k = (q = of_int k)"
| "py_eq_int _ k = False"

text \<open>
  \<open>_is_at_stage\<close>: a missing or empty blob is not at any stage; a blob that does not
  parse, or parses to something that is not a dict (no \<open>get\<close> method), raises inside the
  \<open>try\<close> and gives \<open>False\<close>.
\<close>

definition is_at_stage :: "env \<Rightarrow> report \<Rightarrow> int \<Rightarrow> bool" where
  "is_at_stage e r stage =
     (case approvals_json r of
        None \<Rightarrow> False
      | Some s \<Rightarrow>
          if s = [] then False
          else (case json_loads e s of
                  Some (JObject kvs) \<Rightarrow> py_eq_int (map_of kvs ''stage'') stage
                | _ \<Rightarrow> False))"

definition get_pending_approvals :: "env \<Rightarrow> string \<Rightarrow> world \<Rightarrow> nat" where
  "get_pending_approvals e user_role w =
     (if user_role \<in> set [''TM'', ''Technical Manager'']
      then length (filter (\<lambda>r. is_at_stage e r 1)
                     (filter (\<lambda>r. status r = ''PENDING'') (reports (session w))))
      else if user_role \<in> set [''PM'', ''Project Manager'']
      then length (filter (\<lambda>r. is_at_stage e r 2)
                     (filter (\<lambda>r. status r = ''PENDING'') (reports (session w))))
      else 0)"

section \<open>The bulk notification task\<close>

datatype bulk_result =
  BulkSuccess (sent: nat) (failed: nat) (total: nat)
| BulkFailed

text \<open>
  The loop over \<open>enumerate(user_emails)\<close>. A recipient whose Notification cannot be
  built is counted as failed and the loop goes on; the others are added to the session,
  counted as sent and reported as progress \<open>(i + 1, total)\<close>.
\<close>

fun bulk_loop ::
  "env \<Rightarrow> string \<Rightarrow> string \<Rightarrow> string \<Rightarrow> nat \<Rightarrow> nat \<Rightarrow> string list
     \<Rightarrow> nat \<times> nat \<times> (nat \<times> nat) list \<times> world \<Rightarrow> nat \<times> nat \<times> (nat \<times> nat) list \<times> world" where
  "bulk_loop e ttl msg ntype n i [] acc = acc"
| "bulk_loop e ttl msg ntype n i (addr # rest) (sent_count, failed_count, progress, w) =
     (if ctor_fails e addr
      then bulk_loop e ttl msg ntype n (Suc i) rest (sent_count, Suc failed_count, progress, w)
      else bulk_loop e ttl msg ntype n (Suc i) rest
             (Suc sent_count, failed_count, progress @ [(Suc i, n)],
              add_notification
                \<lparr>notification_id = next_notification_id (notifications (session w)),
                 user_email = addr, title = ttl, message = msg,
                 notification_type = ntype, read = False, read_at = None\<rparr> w))"

text \<open>
  The task: the loop, one commit at the end, and the application context left (which
  drops whatever the session still holds). A failed commit ends in the outer handler.
\<close>

definition bulk_notification_async ::
  "env \<Rightarrow> string list \<Rightarrow> string \<Rightarrow> string \<Rightarrow> string \<Rightarrow> world
     \<Rightarrow> bulk_result \<times> (nat \<times> nat) list \<times> world" where
  "bulk_notification_async e user_emails ttl msg ntype w =
     (case bulk_loop e ttl msg ntype (length user_emails) 0 user_emails (0, 0, [], w) of
        (sent_count, failed_count, progress, w1) \<Rightarrow>
          (case commit e w1 of
             (Inl _, w2) \<Rightarrow> (BulkFailed, progress, rollback w2)
           | (Inr _, w2) \<Rightarrow>
               (BulkSuccess sent_count failed_count (length user_emails), progress, rollback w2)))"

section \<open>Example environments and states\<close>

text \<open>
  A concrete environment for the examples below: nothing fails, e-mail is switched off,
  and the two json functions are given on the texts the examples use (the serialized
  workflow, as \<open>json.dumps\<close> prints it, parses back to the workflow; every other text
  used below is not valid json).
\<close>

definition approvals_text :: string where
  \<open>approvals_text = ''{"stage": 1, "approvers": [{"stage": 1, "title": "Technical Manager", "status": "pending"}, {"stage": 2, "title": "Project Manager", "status": "pending"}]}''\<close>

definition demo_env :: env where
  "demo_env =
     \<lparr>now = 1000, new_uuid = ''0b0e7a52-5f0c-4a63-9d46-1c2f3e4d5a6b'',
      json_dumps = (\<lambda>j. if j = approvals then approvals_text
                          else if j = JObject [] then ''{}'' else ''null''),
      json_loads = (\<lambda>s. if s = approvals_text then Some approvals else None),
      enable_email_notifications = False,
      commit_fails = (\<lambda>n. False), ctor_fails = (\<lambda>a. False), email_fails = (\<lambda>a. False)\<rparr>"

definition empty_store :: store where
  "empty_store = \<lparr>users = [], reports = [], sat_reports = [], notifications = []\<rparr>"

definition world_of :: "store \<Rightarrow> world" where
  "world_of s = \<lparr>committed = s, session = s, commits = 0, outbox = []\<rparr>"

definition ann :: user where
  "ann = \<lparr>full_name = ''Ann'', email = ''ann@x'', role = ''Automation Manager'', user_status = ''Active''\<rparr>"

definition pending_report :: report where
  "pending_report =
     \<lparr>report_id = ''r1'', report_type = ''SAT'', status = ''PENDING'',
      document_title = Some ''Pump station SAT'', document_reference = None,
      project_reference = None, client_name = None, revision = ''R0'', prepared_by = None,
      report_user_email = ''eng@x'', version = ''R0'', updated_at = 900,
      approvals_json = Some approvals_text, approval_notification_sent = False\<rparr>"

definition am_world :: world where
  "am_world = world_of (empty_store\<lparr>users := [ann], reports := [pending_report]\<rparr>)"

definition inbox_world :: world where
  "inbox_world = world_of (empty_store\<lparr>notifications :=
     [\<lparr>notification_id = 1, user_email = ''a@x'', title = ''New Report for Approval'',
       message = ''hello'', notification_type = ''approval'', read = False, read_at = None\<rparr>]\<rparr>)"

definition garbled_report :: report where
  "garbled_report = pending_report\<lparr>report_id := ''r2'', approvals_json := Some ''{stage: 1''\<rparr>"

definition picky_env :: env where
  "picky_env = demo_env\<lparr>ctor_fails := (\<lambda>a. a = ''b@x'')\<rparr>"

text \<open>
  A desk with one active technical manager and one report, in DRAFT with a stale approval
  blob or already PENDING and notified; and an environment in which e-mail is switched on
  and every send fails, so that the dispatcher reports failure.
\<close>

definition tom :: user where
  "tom = \<lparr>full_name = ''Tom'', email = ''tom@x'', role = ''TM'', user_status = ''Active''\<rparr>"

definition draft_report :: report where
  "draft_report = pending_report\<lparr>status := ''DRAFT'', approvals_json := Some ''{stage: 1''\<rparr>"

definition desk_world :: world where
  "desk_world = world_of (empty_store\<lparr>users := [tom], reports := [draft_report]\<rparr>)"

definition mail_down_env :: env where
  "mail_down_env = demo_env\<lparr>enable_email_notifications := True, email_fails := (\<lambda>a. True)\<rparr>"

definition sent_world :: world where
  "sent_world = world_of (empty_store\<lparr>users := [tom],
     reports := [pending_report\<lparr>approval_notification_sent := True\<rparr>]\<rparr>)"

section \<open>Auxiliary facts\<close>

lemma approvals_text_nonempty: "approvals_text \<noteq> []"
  by (simp add: approvals_text_def)

lemma find_update_first:
  "find P xs = Some x \<Longrightarrow> P (f x) \<Longrightarrow> find P (update_first P f xs) = Some (f x)"
  by (induction xs) (auto split: if_splits)

lemma bulk_loop_result:
  "\<exists>progress' new.
     bulk_loop e ttl msg ntype n i xs (s, f, p, w) =
       (s + length (filter (\<lambda>a. \<not> ctor_fails e a) xs), f + length (filter (ctor_fails e) xs),
        progress', w\<lparr>session := (session w)\<lparr>notifications := notifications (session w) @ new\<rparr>\<rparr>)
     \<and> map user_email new = filter (\<lambda>a. \<not> ctor_fails e a) xs
     \<and> (\<forall>x \<in> set new. title x = ttl \<and> message x = msg \<and> notification_type x = ntype \<and> \<not> read x)"
proof (induction xs arbitrary: i s f p w)
  case Nil
  show ?case by (intro exI[of _ p] exI[of _ "[]"]) simp
next
  case (Cons a xs)
  show ?case
  proof (cases "ctor_fails e a")
    case True
    with Cons.IH[of "Suc i" s "Suc f" p w] show ?thesis by simp
  next
    case False
    let ?n = "\<lparr>notification_id = next_notification_id (notifications (session w)),
                 user_email = a, title = ttl, message = msg,
                 notification_type = ntype, read = False, read_at = None\<rparr>"
    from Cons.IH[of "Suc i" "Suc s" f "p @ [(Suc i, n)]" "add_notification ?n w"]
    obtain progress' new where
      r: "bulk_loop e ttl msg ntype n (Suc i) xs (Suc s, f, p @ [(Suc i, n)], add_notification ?n w) =
           (Suc s + length (filter (\<lambda>a. \<not> ctor_fails e a) xs), f + length (filter (ctor_fails e) xs),
            progress', (add_notification ?n w)\<lparr>session := (session (add_notification ?n w))
               \<lparr>notifications := notifications (session (add_notification ?n w)) @ new\<rparr>\<rparr>)"
      and m: "map user_email new = filter (\<lambda>a. \<not> ctor_fails e a) xs"
      and t: "\<forall>x \<in> set new. title x = ttl \<and> message x = msg \<and> notification_type x = ntype \<and> \<not> read x"
      by blast
    show ?thesis
      apply (rule exI[of _ progress'], rule exI[of _ "?n # new"])
      using False r m t by (simp add: add_notification_def)
  qed
qed

lemmas model_defs =
  update_report_status_def get_report_def transition_def commit_def put_report_def rollback_def
  create_approval_notification_def create_notification_def add_notification_def
  next_notification_id_def send_email_notification_def approval_message_def
  approval_email_body_def py_str_def Let_def

lemmas demo_defs =
  demo_env_def mail_down_env_def world_of_def empty_store_def tom_def draft_report_def
  pending_report_def desk_world_def sent_world_def

lemma transition_simps:
  "report_id (transition e st r) = report_id r"
  "status (transition e st r) = st"
  "updated_at (transition e st r) = now e"
  "approval_notification_sent (transition e st r) = approval_notification_sent r"
  by (simp_all add: transition_def Let_def)

lemma find_put:
  "find (\<lambda>x. report_id x = report_id r) xs = Some r0 \<Longrightarrow>
   find (\<lambda>x. report_id x = report_id r)
     (map (\<lambda>x. if report_id x = report_id r then r else x) xs) = Some r"
  by (induction xs) (auto split: if_splits)

lemma get_report_put:
  "get_report (session w) rid = Some r0 \<Longrightarrow> report_id r = rid \<Longrightarrow>
   get_report (session (put_report r w)) rid = Some r"
  using find_put[of r "reports (session w)" r0]
  by (auto simp: get_report_def put_report_def)

lemma get_report_found_id: "get_report s rid = Some r \<Longrightarrow> report_id r = rid"
  by (auto simp: get_report_def find_Some_iff)

lemma create_notification_reports:
  assumes "reports (session w) = R" "reports (committed w) = R"
  shows "reports (session (snd (create_notification e a t m ty w))) = R
       \<and> reports (committed (snd (create_notification e a t m ty w))) = R"
  using assms
  by (auto simp: create_notification_def commit_def rollback_def add_notification_def Let_def)

lemma notify_tms_reports:
  "reports (session w) = R \<Longrightarrow> reports (committed w) = R \<Longrightarrow>
   reports (session (snd (notify_tms e r tms w))) = R
     \<and> reports (committed (snd (notify_tms e r tms w))) = R"
proof (induction tms arbitrary: w)
  case Nil
  then show ?case by simp
next
  case (Cons tm tms)
  obtain res w1 where c: "create_notification e (email tm) ''New Report for Approval''
             (approval_message r) ''approval'' w = (res, w1)"
    by (cases "create_notification e (email tm) ''New Report for Approval''
             (approval_message r) ''approval'' w")
  from create_notification_reports[OF Cons.prems, of e "email tm" "''New Report for Approval''"
      "approval_message r" "''approval''"] c
  have w1: "reports (session w1) = R" "reports (committed w1) = R" by simp_all
  show ?case
  proof (cases res)
    case (Inl err)
    with c w1 show ?thesis by simp
  next
    case (Inr n)
    with c Cons.IH[OF w1] show ?thesis by simp
  qed
qed

lemma send_email_notification_store:
  "session (snd (send_email_notification e a s b w)) = session w
   \<and> committed (snd (send_email_notification e a s b w)) = committed w"
  by (simp add: send_email_notification_def)

lemma email_tms_store:
  "session (snd (email_tms e r tms w)) = session w
   \<and> committed (snd (email_tms e r tms w)) = committed w"
proof (induction tms arbitrary: w)
  case Nil
  show ?case by simp
next
  case (Cons tm tms)
  obtain res w1 where c: "send_email_notification e (email tm) ''New Report Pending Approval''
             (approval_email_body r) w = (res, w1)"
    by (cases "send_email_notification e (email tm) ''New Report Pending Approval''
             (approval_email_body r) w")
  from send_email_notification_store[of e "email tm" "''New Report Pending Approval''"
      "approval_email_body r" w] c
  have w1: "session w1 = session w" "committed w1 = committed w" by simp_all
  show ?case
  proof (cases res)
    case (Inl err)
    with c w1 show ?thesis by simp
  next
    case (Inr u)
    with c Cons.IH[of w1] w1 show ?thesis by simp
  qed
qed

lemma create_approval_notification_reports:
  assumes "reports (session w) = R" "reports (committed w) = R"
  shows "reports (session (snd (create_approval_notification e r w))) = R
       \<and> reports (committed (snd (create_approval_notification e r w))) = R"
proof -
  let ?tms = "filter (\<lambda>u. role u \<in> set [''TM'', ''Technical Manager'']
                              \<and> user_status u = ''Active'') (users (session w))"
  obtain res w1 where n: "notify_tms e r ?tms w = (res, w1)"
    by (cases "notify_tms e r ?tms w")
  from notify_tms_reports[OF assms, of e r ?tms] n
  have w1: "reports (session w1) = R" "reports (committed w1) = R" by simp_all
  obtain res2 w2 where m: "email_tms e r ?tms w1 = (res2, w2)"
    by (cases "email_tms e r ?tms w1")
  from email_tms_store[of e r ?tms w1] m w1
  have w2: "reports (session w2) = R" "reports (committed w2) = R" by simp_all
  show ?thesis
    using n m w1 w2
    by (cases res; cases res2) (simp_all add: create_approval_notification_def Let_def)
qed

lemma put_report_simps:
  "commits (put_report r w) = commits w"
  "committed (put_report r w) = committed w"
  "outbox (put_report r w) = outbox w"
  "notifications (session (put_report r w)) = notifications (session w)"
  by (simp_all add: put_report_def)

lemma update_report_status_first_commit:
  assumes "get_report (session w) rid = Some r0" and "update_report_status e rid st w = (Inr b, w')"
  shows "\<not> commit_fails e (commits w)"
proof
  assume "commit_fails e (commits w)"
  then have "fst (update_report_status e rid st w) = Inl CommitError"
    using assms(1) by (simp add: update_report_status_def commit_def Let_def put_report_simps)
  with assms(2) show False by simp
qed

lemma update_report_status_no_dispatch:
  assumes "get_report (session w) rid = Some r0" and "approval_notification_sent r0"
    and "session w = committed w"
  shows "notifications (committed (snd (update_report_status e rid st w))) = notifications (committed w)
       \<and> outbox (snd (update_report_status e rid st w)) = outbox w"
  using assms
  by (simp add: update_report_status_def commit_def rollback_def Let_def
      transition_simps put_report_simps)

text \<open>
  What a call of \<open>update_report_status\<close> on an existing report leaves behind once its
  first commit has gone through: the session and the database agree, and the stored report
  is the transitioned one, with the notification flag raised when the call returns.
\<close>

lemma update_report_status_found:
  assumes found: "get_report (session w) rid = Some r0"
    and first: "\<not> commit_fails e (commits w)"
    and res: "update_report_status e rid st w = (res, w')"
  shows "session w' = committed w'
    \<and> (res = Inr True
          \<and> get_report (committed w') rid =
              Some ((transition e st r0)\<lparr>approval_notification_sent :=
                       approval_notification_sent r0 \<or> st = ''PENDING''\<rparr>)
        \<or> res = Inl CommitError
          \<and> get_report (committed w') rid = Some (transition e st r0))"
proof -
  let ?r = "transition e st r0"
  let ?w1 = "(put_report ?r w)\<lparr>committed := session (put_report ?r w), commits := Suc (commits w)\<rparr>"
  have rid: "report_id ?r = rid"
    using found by (simp add: transition_simps get_report_found_id)
  have c1: "commit e (put_report ?r w) = (Inr (), ?w1)"
    using first by (simp add: commit_def put_report_def)
  have g1: "get_report (session ?w1) rid = Some ?r"
    using get_report_put[OF found rid] by simp
  show ?thesis
  proof (cases "st = ''PENDING'' \<and> \<not> approval_notification_sent r0")
    case False
    then have "update_report_status e rid st w = (Inr True, ?w1)"
      using found c1 by (auto simp: update_report_status_def Let_def transition_simps)
    with res have "res = Inr True" "w' = ?w1" by simp_all
    moreover have "?r\<lparr>approval_notification_sent := approval_notification_sent r0 \<or> st = ''PENDING''\<rparr> = ?r"
      using False by (auto simp: transition_def Let_def)
    ultimately show ?thesis using g1 by (simp add: get_report_def)
  next
    case True
    obtain ok w2 where d: "create_approval_notification e ?r ?w1 = (ok, w2)"
      by (cases "create_approval_notification e ?r ?w1")
    from create_approval_notification_reports[of ?w1 "reports (session ?w1)" e ?r] d
    have w2: "reports (session w2) = reports (session ?w1)"
      "reports (committed w2) = reports (session ?w1)" by simp_all
    have g2: "get_report (session w2) rid = Some ?r" "get_report (committed w2) rid = Some ?r"
      using g1 w2 by (simp_all add: get_report_def)
    let ?rf = "?r\<lparr>approval_notification_sent := True\<rparr>"
    have g3: "get_report (session (put_report ?rf w2)) rid = Some ?rf"
      using get_report_put[OF g2(1), of ?rf] rid by simp
    have u: "update_report_status e rid st w =
        (case commit e (put_report ?rf w2) of
           (Inl err, w3) \<Rightarrow> (Inl err, rollback w3)
         | (Inr _, w3) \<Rightarrow> (Inr True, w3))"
      using found c1 d True by (simp add: update_report_status_def Let_def transition_simps)
    show ?thesis
    proof (cases "commit_fails e (commits (put_report ?rf w2))")
      case True
      with u res have "res = Inl CommitError"
        "w' = rollback ((put_report ?rf w2)\<lparr>commits := Suc (commits (put_report ?rf w2))\<rparr>)"
        by (simp_all add: commit_def)
      then show ?thesis using g2
        by (simp add: rollback_def put_report_def get_report_def)
    next
      case False
      with u res have "res = Inr True"
        "w' = (put_report ?rf w2)\<lparr>committed := session (put_report ?rf w2),
                 commits := Suc (commits (put_report ?rf w2))\<rparr>"
        by (simp_all add: commit_def)
      then show ?thesis using g3 \<open>st = ''PENDING'' \<and> \<not> approval_notification_sent r0\<close>
        by (simp add: get_report_def)
    qed
  qed
qed

section \<open>The claims\<close>

text \<open>
  C1. The claim: a user stored with the role "Automation Manager" is treated as a
  technical manager wherever the role matters. \<open>get_users_by_role\<close> does list such a
  user under TM, but \<open>get_pending_approvals\<close> and \<open>create_approval_notification\<close> test the
  role against the shorter list TM / Technical Manager. On a state with one active
  Automation Manager and one report pending at stage 1: the user is listed under TM, a
  Technical Manager is shown one pending approval, the Automation Manager is shown none,
  and the dispatcher succeeds without creating any notification.
\<close>

theorem automation_manager_left_out:
  "TM (get_users_by_role am_world) = [(''Ann'', ''ann@x'')]
   \<and> get_pending_approvals demo_env ''Technical Manager'' am_world = 1
   \<and> get_pending_approvals demo_env ''Automation Manager'' am_world = 0
   \<and> create_approval_notification demo_env pending_report am_world = (True, am_world)"
  by (simp add: get_users_by_role_def add_user_by_role_def get_pending_approvals_def
      is_at_stage_def create_approval_notification_def am_world_def world_of_def
      empty_store_def ann_def pending_report_def demo_env_def approvals_def
      approvals_text_nonempty)

text \<open>
  C2. The claim: the notification flag is set only while the report is PENDING, and every
  transition that leaves PENDING resets it. The code never clears the flag: a report that
  is PENDING with the flag set and is moved to APPROVED ends APPROVED with the flag
  still set.
\<close>

theorem flag_never_reset_counterexample:
  "fst (update_report_status demo_env ''r1'' ''APPROVED'' sent_world) = Inr True
   \<and> map status (reports (committed (snd (update_report_status demo_env ''r1'' ''APPROVED'' sent_world))))
       = [''APPROVED'']
   \<and> map approval_notification_sent
        (reports (committed (snd (update_report_status demo_env ''r1'' ''APPROVED'' sent_world))))
       = [True]"
  by (simp add: model_defs demo_defs)

text \<open>
  C2, as amended. \<open>update_report_status\<close> raises the flag only in a call whose requested
  status is PENDING and never clears it: after a successful call on an existing report
  the stored flag is set exactly when it was set before or the requested status is
  PENDING.
\<close>

theorem flag_set_on_pending_only:
  assumes "get_report (session w) rid = Some r0"
    and "update_report_status e rid st w = (Inr True, w')"
  shows "\<exists>r'. get_report (committed w') rid = Some r' \<and> get_report (session w') rid = Some r'
     \<and> approval_notification_sent r' = (approval_notification_sent r0 \<or> st = ''PENDING'')"
proof -
  have first: "\<not> commit_fails e (commits w)"
    using update_report_status_first_commit[OF assms] .
  from update_report_status_found[OF assms(1) first assms(2)]
  show ?thesis by (auto simp: get_report_def)
qed

theorem flag_set_on_pending_only_witness:
  "get_report (session sent_world) ''r1'' = Some (pending_report\<lparr>approval_notification_sent := True\<rparr>)
   \<and> fst (update_report_status demo_env ''r1'' ''APPROVED'' sent_world) = Inr True
   \<and> (\<exists>r'. get_report (committed (snd (update_report_status demo_env ''r1'' ''APPROVED'' sent_world))) ''r1''
          = Some r' \<and> approval_notification_sent r')"
proof -
  have h1: "get_report (session sent_world) ''r1''
      = Some (pending_report\<lparr>approval_notification_sent := True\<rparr>)"
    by (simp add: model_defs demo_defs)
  have f: "fst (update_report_status demo_env ''r1'' ''APPROVED'' sent_world) = Inr True"
    by (simp add: model_defs demo_defs)
  have h2: "update_report_status demo_env ''r1'' ''APPROVED'' sent_world
      = (Inr True, snd (update_report_status demo_env ''r1'' ''APPROVED'' sent_world))"
    using f by (metis prod.collapse)
  show ?thesis
    using h1 f flag_set_on_pending_only[OF h1 h2] by auto
qed

text \<open>
  C3. For an existing report in DRAFT, a successful \<open>update_report_status\<close> to PENDING
  leaves the report's serialized approval state equal to the serialization of the fixed
  template: current stage 1 and the two stage descriptors (1, Technical Manager, pending)
  and (2, Project Manager, pending), in this order, whatever the blob held before.
\<close>

theorem draft_to_pending_initialises_workflow:
  assumes "get_report (session w) rid = Some r0" and "status r0 = ''DRAFT''"
    and "update_report_status e rid ''PENDING'' w = (Inr True, w')"
  shows "\<exists>r'. get_report (committed w') rid = Some r' \<and> get_report (session w') rid = Some r'
     \<and> approvals_json r' = Some (json_dumps e
          (JObject [(''stage'', JInt 1),
                    (''approvers'', JArray [
                       JObject [(''stage'', JInt 1), (''title'', JString ''Technical Manager''),
                                (''status'', JString ''pending'')],
                       JObject [(''stage'', JInt 2), (''title'', JString ''Project Manager''),
                                (''status'', JString ''pending'')]])]))"
proof -
  have first: "\<not> commit_fails e (commits w)"
    using update_report_status_first_commit[OF assms(1,3)] .
  have "approvals_json (transition e ''PENDING'' r0) = Some (json_dumps e approvals)"
    using assms(2) by (simp add: transition_def)
  with update_report_status_found[OF assms(1) first assms(3)]
  show ?thesis by (auto simp: get_report_def approvals_def)
qed

theorem draft_to_pending_initialises_workflow_witness:
  "get_report (session desk_world) ''r1'' = Some draft_report
   \<and> status draft_report = ''DRAFT'' \<and> approvals_json draft_report = Some ''{stage: 1''
   \<and> fst (update_report_status demo_env ''r1'' ''PENDING'' desk_world) = Inr True
   \<and> (\<exists>r'. get_report (committed (snd (update_report_status demo_env ''r1'' ''PENDING'' desk_world))) ''r1''
          = Some r' \<and> approvals_json r' = Some approvals_text)"
proof -
  have h1: "get_report (session desk_world) ''r1'' = Some draft_report"
    by (simp add: model_defs demo_defs)
  have h2: "status draft_report = ''DRAFT''" by (simp add: demo_defs)
  have p: "approvals_json draft_report = Some ''{stage: 1''" by (simp add: demo_defs)
  have f: "fst (update_report_status demo_env ''r1'' ''PENDING'' desk_world) = Inr True"
    by (simp add: model_defs demo_defs)
  have h3: "update_report_status demo_env ''r1'' ''PENDING'' desk_world
      = (Inr True, snd (update_report_status demo_env ''r1'' ''PENDING'' desk_world))"
    using f by (metis prod.collapse)
  have d: "json_dumps demo_env approvals = approvals_text" by (simp add: demo_env_def)
  show ?thesis
    using h1 h2 p f d draft_to_pending_initialises_workflow[OF h1 h2 h3]
    by (auto simp: approvals_def)
qed

text \<open>
  C4. The claim: \<open>create_report\<close> on a field set without a required field such as
  document_title raises ValidationError and creates no record. The code checks nothing:
  on the empty field set, with a database that takes the row, it returns the new report,
  whose title is None, and the report is stored.
\<close>

theorem create_report_missing_title_counterexample:
  "fst (create_report demo_env [] ''eng@x'' (world_of empty_store))
     = Inr (new_report demo_env [] ''eng@x'')
   \<and> document_title (new_report demo_env [] ''eng@x'') = None
   \<and> reports (committed (snd (create_report demo_env [] ''eng@x'' (world_of empty_store))))
     = [new_report demo_env [] ''eng@x'']"
  by (simp add: create_report_def new_report_def get_default_def commit_def Let_def demo_defs)

text \<open>
  C4, as amended. \<open>create_report\<close> does not validate the field set. When the commit goes
  through, it returns the new DRAFT report, whose document_title is whatever the field
  set holds for it (None when absent), and the database holds the report after those the
  session held. It fails only when the commit raises: the error is the commit's, passed
  on after a rollback, and the database is as before.
\<close>

theorem create_report_no_validation:
  "(\<not> commit_fails e (commits w) \<longrightarrow>
      (\<exists>w'. create_report e data owner w = (Inr (new_report e data owner), w')
         \<and> reports (committed w') = reports (session w) @ [new_report e data owner]
         \<and> status (new_report e data owner) = ''DRAFT''
         \<and> document_title (new_report e data owner) = map_of data ''document_title''))
   \<and> (commit_fails e (commits w) \<longrightarrow>
      (\<exists>w'. create_report e data owner w = (Inl CommitError, w')
         \<and> committed w' = committed w \<and> session w' = committed w))"
  by (simp add: create_report_def new_report_def commit_def rollback_def Let_def)

theorem create_report_no_validation_witness:
  "\<not> commit_fails demo_env (commits (world_of empty_store))
   \<and> map_of [(''client_name'', ''Acme'')] ''document_title'' = None
   \<and> fst (create_report demo_env [(''client_name'', ''Acme'')] ''eng@x'' (world_of empty_store))
       = Inr (new_report demo_env [(''client_name'', ''Acme'')] ''eng@x'')
   \<and> commit_fails (demo_env\<lparr>commit_fails := (\<lambda>n. True)\<rparr>) (commits (world_of empty_store))
   \<and> fst (create_report (demo_env\<lparr>commit_fails := (\<lambda>n. True)\<rparr>) [(''client_name'', ''Acme'')] ''eng@x''
            (world_of empty_store)) = Inl CommitError"
proof -
  have h1: "\<not> commit_fails demo_env (commits (world_of empty_store))" by (simp add: demo_defs)
  have h2: "commit_fails (demo_env\<lparr>commit_fails := (\<lambda>n. True)\<rparr>) (commits (world_of empty_store))"
    by simp
  show ?thesis
    using h1 h2
      create_report_no_validation[of demo_env "world_of empty_store" "[(''client_name'', ''Acme'')]" "''eng@x''"]
      create_report_no_validation[of "demo_env\<lparr>commit_fails := (\<lambda>n. True)\<rparr>" "world_of empty_store"
        "[(''client_name'', ''Acme'')]" "''eng@x''"]
    by auto
qed

text \<open>
  C5. In \<open>update_report_status\<close> on an existing report whose first commit goes through,
  the state handed on after that commit (the one the dispatcher runs on) already holds the
  new status and time stamp in the database; and whatever happens afterwards (the
  dispatcher failing, the second commit raising and being rolled back) the database
  still holds the report with the new status and the new \<open>updated_at\<close> when the call ends.
\<close>

theorem status_commit_survives_dispatch:
  assumes "get_report (session w) rid = Some r0" and "\<not> commit_fails e (commits w)"
    and "update_report_status e rid st w = (res, w')"
  shows "get_report (committed (snd (commit e (put_report (transition e st r0) w)))) rid
           = Some (transition e st r0)
       \<and> (\<exists>r'. get_report (committed w') rid = Some r' \<and> status r' = st \<and> updated_at r' = now e)"
proof -
  have rid: "report_id (transition e st r0) = rid"
    using assms(1) by (simp add: transition_simps get_report_found_id)
  have "get_report (session (put_report (transition e st r0) w)) rid = Some (transition e st r0)"
    using get_report_put[OF assms(1) rid] .
  then have a: "get_report (committed (snd (commit e (put_report (transition e st r0) w)))) rid
           = Some (transition e st r0)"
    using assms(2) by (simp add: commit_def put_report_def get_report_def)
  from update_report_status_found[OF assms]
  have "\<exists>r'. get_report (committed w') rid = Some r' \<and> status r' = st \<and> updated_at r' = now e"
    by (auto simp: transition_simps)
  with a show ?thesis by simp
qed

theorem status_commit_survives_dispatch_witness:
  "get_report (session desk_world) ''r1'' = Some draft_report
   \<and> \<not> commit_fails mail_down_env (commits desk_world)
   \<and> \<not> fst (create_approval_notification mail_down_env (transition mail_down_env ''PENDING'' draft_report)
         (snd (commit mail_down_env
            (put_report (transition mail_down_env ''PENDING'' draft_report) desk_world))))
   \<and> (\<exists>r'. get_report (committed (snd (update_report_status mail_down_env ''r1'' ''PENDING'' desk_world))) ''r1''
            = Some r' \<and> status r' = ''PENDING'' \<and> updated_at r' = 1000)"
proof -
  have h1: "get_report (session desk_world) ''r1'' = Some draft_report"
    by (simp add: model_defs demo_defs)
  have h2: "\<not> commit_fails mail_down_env (commits desk_world)"
    by (simp add: demo_defs)
  have d: "\<not> fst (create_approval_notification mail_down_env (transition mail_down_env ''PENDING'' draft_report)
         (snd (commit mail_down_env
            (put_report (transition mail_down_env ''PENDING'' draft_report) desk_world))))"
    by (simp add: model_defs demo_defs)
  have n: "now mail_down_env = 1000" by (simp add: demo_defs)
  show ?thesis
    using h1 h2 d n status_commit_survives_dispatch[OF h1 h2 surjective_pairing, of "''PENDING''"]
    by simp
qed

text \<open>
  C6. When \<open>update_report_status\<close> moves a report whose flag is unset to PENDING, the
  status commit goes through, the dispatcher returns false and the following commit goes
  through, the call returns true and the database holds the report with the flag set;
  and a later call to PENDING on the resulting state, in any environment, creates no
  notification and sends no e-mail.
\<close>

theorem flag_set_despite_failed_dispatch:
  assumes found: "get_report (session w) rid = Some r0"
    and unsent: "\<not> approval_notification_sent r0"
    and first: "commit e (put_report (transition e ''PENDING'' r0) w) = (Inr (), w1)"
    and failed: "create_approval_notification e (transition e ''PENDING'' r0) w1 = (False, w2)"
    and second: "\<not> commit_fails e (commits w2)"
  shows "\<exists>w' r'. update_report_status e rid ''PENDING'' w = (Inr True, w')
     \<and> get_report (committed w') rid = Some r' \<and> approval_notification_sent r'
     \<and> (\<forall>e'. notifications (committed (snd (update_report_status e' rid ''PENDING'' w')))
                = notifications (committed w')
             \<and> outbox (snd (update_report_status e' rid ''PENDING'' w')) = outbox w')"
proof -
  let ?r = "transition e ''PENDING'' r0"
  let ?rf = "?r\<lparr>approval_notification_sent := True\<rparr>"
  let ?w' = "(put_report ?rf w2)\<lparr>committed := session (put_report ?rf w2),
                 commits := Suc (commits w2)\<rparr>"
  have c1: "\<not> commit_fails e (commits w)"
    using first by (auto simp: commit_def put_report_simps split: if_splits)
  have u: "update_report_status e rid ''PENDING'' w = (Inr True, ?w')"
    using found unsent first failed second
    by (simp add: update_report_status_def Let_def transition_simps commit_def put_report_simps)
  from update_report_status_found[OF found c1 u]
  have s: "session ?w' = committed ?w'" and g: "get_report (committed ?w') rid = Some ?rf"
    by simp_all
  have g': "get_report (session ?w') rid = Some ?rf" using s g by simp
  have "notifications (committed (snd (update_report_status e' rid ''PENDING'' ?w')))
                = notifications (committed ?w')
             \<and> outbox (snd (update_report_status e' rid ''PENDING'' ?w')) = outbox ?w'" for e'
    using update_report_status_no_dispatch[OF g' _ s, of e' "''PENDING''"] by simp
  with u g show ?thesis by (intro exI[of _ ?w'] exI[of _ ?rf]) simp
qed

theorem flag_set_despite_failed_dispatch_witness:
  "get_report (session desk_world) ''r1'' = Some draft_report
   \<and> \<not> approval_notification_sent draft_report
   \<and> fst (commit mail_down_env (put_report (transition mail_down_env ''PENDING'' draft_report) desk_world))
       = Inr ()
   \<and> \<not> fst (create_approval_notification mail_down_env (transition mail_down_env ''PENDING'' draft_report)
         (snd (commit mail_down_env
            (put_report (transition mail_down_env ''PENDING'' draft_report) desk_world))))
   \<and> fst (update_report_status mail_down_env ''r1'' ''PENDING'' desk_world) = Inr True
   \<and> map approval_notification_sent
        (reports (committed (snd (update_report_status mail_down_env ''r1'' ''PENDING'' desk_world))))
       = [True]"
proof -
  let ?r = "transition mail_down_env ''PENDING'' draft_report"
  let ?c = "commit mail_down_env (put_report ?r desk_world)"
  let ?d = "create_approval_notification mail_down_env ?r (snd ?c)"
  have h1: "get_report (session desk_world) ''r1'' = Some draft_report"
    by (simp add: model_defs demo_defs)
  have h2: "\<not> approval_notification_sent draft_report" by (simp add: demo_defs)
  have c: "fst ?c = Inr ()" by (simp add: model_defs demo_defs)
  have h3: "?c = (Inr (), snd ?c)" using c by (metis prod.collapse)
  have d: "\<not> fst ?d" by (simp add: model_defs demo_defs)
  have h4: "?d = (False, snd ?d)" using d by (metis prod.collapse)
  have h5: "\<not> commit_fails mail_down_env (commits (snd ?d))" by (simp add: demo_defs)
  have m: "map approval_notification_sent
        (reports (committed (snd (update_report_status mail_down_env ''r1'' ''PENDING'' desk_world))))
       = [True]"
    by (simp add: model_defs demo_defs)
  show ?thesis
    using h1 h2 c d m flag_set_despite_failed_dispatch[OF h1 h2 h3 h4 h5]
    by auto
qed

text \<open>
  C7. A report whose serialized approval state is absent, or is a text that \<open>json.loads\<close>
  rejects, is at no stage, whatever the stage asked for; so for every role the count of
  pending approvals is the count over the other reports. Both functions are total: they
  return a value on every input.
\<close>

theorem malformed_not_at_any_stage:
  assumes "approvals_json r = None \<or> (\<exists>s. approvals_json r = Some s \<and> json_loads e s = None)"
  shows "\<not> is_at_stage e r stage
    \<and> (reports (session w) = pre @ r # post \<longrightarrow>
         get_pending_approvals e user_role w =
         get_pending_approvals e user_role (w\<lparr>session := (session w)\<lparr>reports := pre @ post\<rparr>\<rparr>))"
proof -
  have no: "\<not> is_at_stage e r k" for k
    using assms by (auto simp: is_at_stage_def)
  then show ?thesis
    by (simp add: get_pending_approvals_def)
qed

theorem malformed_not_at_any_stage_witness:
  "(approvals_json garbled_report = None
      \<or> (\<exists>s. approvals_json garbled_report = Some s \<and> json_loads demo_env s = None))
   \<and> \<not> is_at_stage demo_env garbled_report 1
   \<and> get_pending_approvals demo_env ''TM''
        (world_of (empty_store\<lparr>reports := [pending_report] @ garbled_report # []\<rparr>)) = 1"
proof -
  have h: "approvals_json garbled_report = None
      \<or> (\<exists>s. approvals_json garbled_report = Some s \<and> json_loads demo_env s = None)"
    by (simp add: garbled_report_def demo_env_def approvals_text_def)
  have r: "reports (session (world_of (empty_store\<lparr>reports := [pending_report] @ garbled_report # []\<rparr>)))
      = [pending_report] @ garbled_report # []"
    by (simp add: world_of_def)
  have c: "get_pending_approvals demo_env ''TM''
      ((world_of (empty_store\<lparr>reports := [pending_report] @ garbled_report # []\<rparr>))
         \<lparr>session := (session (world_of (empty_store\<lparr>reports := [pending_report] @ garbled_report # []\<rparr>)))
            \<lparr>reports := [pending_report] @ []\<rparr>\<rparr>) = 1"
    by (simp add: get_pending_approvals_def is_at_stage_def world_of_def pending_report_def
        demo_env_def approvals_def approvals_text_nonempty)
  show ?thesis
    using h r c malformed_not_at_any_stage[OF h, of 1
        "world_of (empty_store\<lparr>reports := [pending_report] @ garbled_report # []\<rparr>)"
        "[pending_report]" "[]" "''TM''"]
    by simp
qed

text \<open>
  C8. The bulk notification task on a list in which building the record fails for exactly
  one recipient \<open>b\<close> (and the final commit goes through): the task ends in success with
  sent = the number of the other recipients, failed = 1 and total = the length of the
  list, and the database then holds, after what the session held before, one new
  notification for each of the other recipients, in input order, with the given title,
  message and type. On [a@x, b@x, c@x] with b@x failing this is sent 2, failed 1, total 3.
\<close>

theorem bulk_one_recipient_fails:
  assumes "ctor_fails e b" and "\<forall>a \<in> set (pre @ post). \<not> ctor_fails e a"
    and "\<not> commit_fails e (commits w)"
  shows "\<exists>progress w' new.
     bulk_notification_async e (pre @ b # post) ttl msg ntype w =
       (BulkSuccess (length pre + length post) 1 (length (pre @ b # post)), progress, w')
     \<and> notifications (committed w') = notifications (session w) @ new
     \<and> map user_email new = pre @ post
     \<and> (\<forall>x \<in> set new. title x = ttl \<and> message x = msg \<and> notification_type x = ntype)"
proof -
  from assms(2) have ok: "filter (\<lambda>a. \<not> ctor_fails e a) (pre @ b # post) = pre @ post"
    using assms(1) by (simp add: filter_id_conv)
  from assms(2) have bad: "filter (ctor_fails e) (pre @ b # post) = [b]"
    using assms(1) by (simp add: filter_empty_conv)
  from bulk_loop_result[of e ttl msg ntype "length (pre @ b # post)" 0 "pre @ b # post" 0 0 "[]" w]
  obtain progress' new where
    r: "bulk_loop e ttl msg ntype (length (pre @ b # post)) 0 (pre @ b # post) (0, 0, [], w) =
         (length (pre @ post), 1, progress',
          w\<lparr>session := (session w)\<lparr>notifications := notifications (session w) @ new\<rparr>\<rparr>)"
    and m: "map user_email new = pre @ post"
    and t: "\<forall>x \<in> set new. title x = ttl \<and> message x = msg \<and> notification_type x = ntype \<and> \<not> read x"
    unfolding ok bad by auto
  show ?thesis
    using r m t assms(3) by (simp add: bulk_notification_async_def commit_def rollback_def)
qed

theorem bulk_one_recipient_fails_witness:
  "ctor_fails picky_env ''b@x'' \<and> \<not> ctor_fails picky_env ''a@x'' \<and> \<not> ctor_fails picky_env ''c@x''
   \<and> \<not> commit_fails picky_env (commits (world_of empty_store))
   \<and> fst (bulk_notification_async picky_env [''a@x'', ''b@x'', ''c@x''] ''Notice'' ''Plant shutdown''
            ''info'' (world_of empty_store)) = BulkSuccess 2 1 3
   \<and> map user_email (notifications (committed (snd (snd
        (bulk_notification_async picky_env [''a@x'', ''b@x'', ''c@x''] ''Notice'' ''Plant shutdown''
            ''info'' (world_of empty_store)))))) = [''a@x'', ''c@x'']"
proof -
  have h1: "ctor_fails picky_env ''b@x''" by (simp add: picky_env_def)
  have h2: "\<forall>a \<in> set ([''a@x''] @ [''c@x'']). \<not> ctor_fails picky_env a"
    by (simp add: picky_env_def)
  have h3: "\<not> commit_fails picky_env (commits (world_of empty_store))"
    by (simp add: picky_env_def demo_env_def)
  have e: "notifications (session (world_of empty_store)) = []"
    by (simp add: world_of_def empty_store_def)
  show ?thesis
    using h1 h2 h3 e bulk_one_recipient_fails[OF h1 h2 h3, of "''Notice''" "''Plant shutdown''" "''info''"]
    by auto
qed

text \<open>
  C9. \<open>mark_as_read\<close> returns true only when the session holds a notification with the
  given id whose recipient is the requesting address, and then that notification is
  stored as read, stamped with the current time. When no notification has both that id
  and that recipient (no such id, or another recipient's notification), it returns false
  and nothing at all is changed.
\<close>

theorem mark_as_read_owner_only:
  "(fst (mark_as_read e nid addr w) \<longrightarrow>
      (\<exists>n. find (\<lambda>n. notification_id n = nid \<and> user_email n = addr) (notifications (session w)) = Some n
        \<and> find (\<lambda>n. notification_id n = nid \<and> user_email n = addr)
              (notifications (committed (snd (mark_as_read e nid addr w))))
            = Some (n\<lparr>read := True, read_at := Some (now e)\<rparr>)))
   \<and> (\<not> (\<exists>n \<in> set (notifications (session w)). notification_id n = nid \<and> user_email n = addr)
        \<longrightarrow> mark_as_read e nid addr w = (False, w))"
proof (intro conjI impI)
  assume ok: "fst (mark_as_read e nid addr w)"
  let ?P = "\<lambda>n. notification_id n = nid \<and> user_email n = addr"
  from ok obtain n where n: "find ?P (notifications (session w)) = Some n"
    by (cases "find ?P (notifications (session w))") (auto simp: mark_as_read_def)
  from ok n have nf: "\<not> commit_fails e (commits w)"
    by (auto simp: mark_as_read_def commit_def split: if_splits)
  have Pn: "?P n" using n by (auto dest: find_Some_iff[THEN iffD1])
  have "find ?P (update_first ?P (\<lambda>n. n\<lparr>read := True, read_at := Some (now e)\<rparr>) (notifications (session w)))
        = Some (n\<lparr>read := True, read_at := Some (now e)\<rparr>)"
    using n Pn by (intro find_update_first) auto
  with n nf show "\<exists>n. find ?P (notifications (session w)) = Some n
        \<and> find ?P (notifications (committed (snd (mark_as_read e nid addr w))))
            = Some (n\<lparr>read := True, read_at := Some (now e)\<rparr>)"
    by (simp add: mark_as_read_def commit_def Let_def)
next
  assume "\<not> (\<exists>n \<in> set (notifications (session w)). notification_id n = nid \<and> user_email n = addr)"
  then have "find (\<lambda>n. notification_id n = nid \<and> user_email n = addr) (notifications (session w)) = None"
    by (simp add: find_None_iff)
  then show "mark_as_read e nid addr w = (False, w)"
    by (simp add: mark_as_read_def)
qed

theorem mark_as_read_owner_only_witness:
  "fst (mark_as_read demo_env 1 ''a@x'' inbox_world)
   \<and> find (\<lambda>n. notification_id n = 1 \<and> user_email n = ''a@x'')
        (notifications (committed (snd (mark_as_read demo_env 1 ''a@x'' inbox_world))))
      = Some \<lparr>notification_id = 1, user_email = ''a@x'', title = ''New Report for Approval'',
          message = ''hello'', notification_type = ''approval'', read = True, read_at = Some 1000\<rparr>
   \<and> \<not> (\<exists>n \<in> set (notifications (session inbox_world)). notification_id n = 1 \<and> user_email n = ''b@x'')
   \<and> mark_as_read demo_env 1 ''b@x'' inbox_world = (False, inbox_world)"
proof -
  have a: "fst (mark_as_read demo_env 1 ''a@x'' inbox_world)"
    by (simp add: mark_as_read_def commit_def inbox_world_def world_of_def empty_store_def demo_env_def)
  have f: "find (\<lambda>n. notification_id n = 1 \<and> user_email n = ''a@x'') (notifications (session inbox_world))
      = Some \<lparr>notification_id = 1, user_email = ''a@x'', title = ''New Report for Approval'',
          message = ''hello'', notification_type = ''approval'', read = False, read_at = None\<rparr>"
    by (simp add: inbox_world_def world_of_def empty_store_def)
  have b: "\<not> (\<exists>n \<in> set (notifications (session inbox_world)). notification_id n = 1 \<and> user_email n = ''b@x'')"
    by (simp add: inbox_world_def world_of_def empty_store_def)
  have n: "now demo_env = 1000" by (simp add: demo_env_def)
  show ?thesis
    using a b f n mark_as_read_owner_only[of demo_env 1 "''a@x''" inbox_world]
      mark_as_read_owner_only[of demo_env 1 "''b@x''" inbox_world]
    by simp
qed

text \<open>
  C10. \<open>update_report_status\<close> checks neither the current nor the requested status. On an
  existing report the call either returns true or passes on the error of a failed commit,
  nothing else; and when no commit fails it returns true for every status string, with
  the stored report carrying that string as its status and the current time as
  \<open>updated_at\<close>.
\<close>

theorem no_transition_rejected:
  assumes "get_report (session w) rid = Some r0"
  shows "(fst (update_report_status e rid st w) = Inr True
            \<or> fst (update_report_status e rid st w) = Inl CommitError)
     \<and> ((\<forall>n. \<not> commit_fails e n) \<longrightarrow>
          (\<exists>w' r'. update_report_status e rid st w = (Inr True, w')
             \<and> get_report (committed w') rid = Some r' \<and> get_report (session w') rid = Some r'
             \<and> status r' = st \<and> updated_at r' = now e))"
proof (intro conjI impI)
  show "fst (update_report_status e rid st w) = Inr True
            \<or> fst (update_report_status e rid st w) = Inl CommitError"
  proof (cases "commit_fails e (commits w)")
    case True
    then show ?thesis
      using assms by (simp add: update_report_status_def commit_def Let_def put_report_simps)
  next
    case False
    from update_report_status_found[OF assms False surjective_pairing]
    show ?thesis by auto
  qed
next
  assume ok: "\<forall>n. \<not> commit_fails e n"
  then have first: "\<not> commit_fails e (commits w)" by simp
  have "fst (update_report_status e rid st w) \<noteq> Inl CommitError"
    using assms ok
    by (auto simp: update_report_status_def commit_def Let_def split: prod.splits)
  with update_report_status_found[OF assms first surjective_pairing, of st]
  have "fst (update_report_status e rid st w) = Inr True"
    and "session (snd (update_report_status e rid st w)) = committed (snd (update_report_status e rid st w))"
    and "get_report (committed (snd (update_report_status e rid st w))) rid =
              Some ((transition e st r0)\<lparr>approval_notification_sent :=
                       approval_notification_sent r0 \<or> st = ''PENDING''\<rparr>)"
    by auto
  then show "\<exists>w' r'. update_report_status e rid st w = (Inr True, w')
             \<and> get_report (committed w') rid = Some r' \<and> get_report (session w') rid = Some r'
             \<and> status r' = st \<and> updated_at r' = now e"
    by (intro exI[of _ "snd (update_report_status e rid st w)"]
        exI[of _ "(transition e st r0)\<lparr>approval_notification_sent :=
                       approval_notification_sent r0 \<or> st = ''PENDING''\<rparr>"])
       (auto simp: transition_simps get_report_def intro: prod_eqI)
qed

theorem no_transition_rejected_witness:
  "get_report (session sent_world) ''r1'' = Some (pending_report\<lparr>approval_notification_sent := True\<rparr>)
   \<and> \<not> commit_fails demo_env 0 \<and> \<not> commit_fails demo_env 7
   \<and> fst (update_report_status demo_env ''r1'' ''ARCHIVED?'' sent_world) = Inr True
   \<and> map status (reports (committed (snd (update_report_status demo_env ''r1'' ''ARCHIVED?'' sent_world))))
       = [''ARCHIVED?'']"
proof -
  have h1: "get_report (session sent_world) ''r1''
      = Some (pending_report\<lparr>approval_notification_sent := True\<rparr>)"
    by (simp add: model_defs demo_defs)
  have ok: "\<forall>n. \<not> commit_fails demo_env n" by (simp add: demo_defs)
  have m: "map status (reports (committed (snd (update_report_status demo_env ''r1'' ''ARCHIVED?'' sent_world))))
       = [''ARCHIVED?'']"
    by (simp add: model_defs demo_defs)
  show ?thesis
    using h1 ok m no_transition_rejected[OF h1, of demo_env "''ARCHIVED?''"]
    by auto
qed

end
